theory Spec2Isabelle
  imports Main "HOL-Library.AList" "HOL-Library.Sublist"
begin

section \<open>Python values and the operations the client applies to them\<close>

text \<open>
  The client handles parsed JSON: None, booleans, integers, strings, lists and
  dictionaries with string keys. A dictionary is an association list in insertion order.
  Strings are lists of code points below 256; floating-point numbers are outside the model.
\<close>

datatype pyval =
    PNone
  | PBool bool
  | PInt int
  | PStr string
  | PList "pyval list"
  | PDict "(string \<times> pyval) list"

text \<open>Exceptions that leave a function instead of a value.\<close>

datatype exn =
    KeyError string
  | TypeError string
  | AttributeError string
  | IndexError string
  | ValueError string
  | Propagated string

text \<open>Truth value testing, as \<^verbatim>\<open>if x:\<close> and \<^verbatim>\<open>not x\<close> do it.\<close>

fun py_truthy :: "pyval \<Rightarrow> bool" where
  "py_truthy PNone = False"
| "py_truthy (PBool b) = b"
| "py_truthy (PInt i) = (i \<noteq> 0)"
| "py_truthy (PStr s) = (s \<noteq> [])"
| "py_truthy (PList xs) = (xs \<noteq> [])"
| "py_truthy (PDict kvs) = (kvs \<noteq> [])"

text \<open>An optional argument with default None: \<^verbatim>\<open>if arg:\<close> holds for a non-empty
  string and for a non-zero integer.\<close>

fun str_truthy :: "string option \<Rightarrow> bool" where
  "str_truthy None = False"
| "str_truthy (Some s) = (s \<noteq> [])"

fun int_truthy :: "int option \<Rightarrow> bool" where
  "int_truthy None = False"
| "int_truthy (Some i) = (i \<noteq> 0)"

definition type_name :: "pyval \<Rightarrow> string" where
  "type_name v = (case v of
      PNone \<Rightarrow> ''NoneType'' | PBool _ \<Rightarrow> ''bool'' | PInt _ \<Rightarrow> ''int''
    | PStr _ \<Rightarrow> ''str'' | PList _ \<Rightarrow> ''list'' | PDict _ \<Rightarrow> ''dict'')"

definition quoted :: "string \<Rightarrow> string" where
  "quoted s = [CHR 0x27] @ s @ [CHR 0x27]"

subsection \<open>str() and repr()\<close>

fun nat_str :: "nat \<Rightarrow> string" where
  "nat_str n = (if n < 10 then [''0123456789'' ! n]
                else nat_str (n div 10) @ [''0123456789'' ! (n mod 10)])"

declare nat_str.simps [simp del]

definition int_str :: "int \<Rightarrow> string" where
  "int_str i = (if i < 0 then ''-'' @ nat_str (nat (- i)) else nat_str (nat i))"

definition hex2 :: "nat \<Rightarrow> string" where
  "hex2 n = [''0123456789abcdef'' ! (n div 16), ''0123456789abcdef'' ! (n mod 16)]"

definition printable :: "nat \<Rightarrow> bool" where
  "printable n = ((32 \<le> n \<and> n < 127) \<or> (161 \<le> n \<and> n \<noteq> 173))"

definition repr_char :: "char \<Rightarrow> char \<Rightarrow> string" where
  "repr_char q c =
     (if c = q \<or> c = CHR 0x5C then [CHR 0x5C, c]
      else if c = CHR 0x09 then [CHR 0x5C, CHR ''t'']
      else if c = CHR 0x0A then [CHR 0x5C, CHR ''n'']
      else if c = CHR 0x0D then [CHR 0x5C, CHR ''r'']
      else if printable (of_char c) then [c]
      else [CHR 0x5C, CHR ''x''] @ hex2 (of_char c))"

definition repr_str :: "string \<Rightarrow> string" where
  "repr_str s =
     (let q = (if CHR 0x27 \<in> set s \<and> CHR 0x22 \<notin> set s then CHR 0x22 else CHR 0x27)
      in [q] @ concat (map (repr_char q) s) @ [q])"

fun join :: "string \<Rightarrow> string list \<Rightarrow> string" where
  "join sep [] = []"
| "join sep [x] = x"
| "join sep (x # y # ys) = x @ sep @ join sep (y # ys)"

fun py_repr :: "pyval \<Rightarrow> string" where
  "py_repr PNone = ''None''"
| "py_repr (PBool b) = (if b then ''True'' else ''False'')"
| "py_repr (PInt i) = int_str i"
| "py_repr (PStr s) = repr_str s"
| "py_repr (PList xs) = ''['' @ join '', '' (map py_repr xs) @ '']''"
| "py_repr (PDict kvs) =
     ''{'' @ join '', '' (map (\<lambda>(k, v). repr_str k @ '': '' @ py_repr v) kvs) @ ''}''"

text \<open>What an f-string field \<^verbatim>\<open>{x}\<close> renders: a string as itself, anything else as
  its repr.\<close>

definition py_str :: "pyval \<Rightarrow> string" where
  "py_str v = (case v of PStr s \<Rightarrow> s | _ \<Rightarrow> py_repr v)"

subsection \<open>Dictionaries\<close>

definition dict_get :: "(string \<times> pyval) list \<Rightarrow> string \<Rightarrow> pyval option" where
  "dict_get kvs k = map_of kvs k"

text \<open>\<^verbatim>\<open>{**base, **extra}\<close>: the keys of \<open>extra\<close> are written over \<open>base\<close> in order;
  a key already there keeps its place and takes the new value.\<close>

definition dict_merge :: "(string \<times> pyval) list \<Rightarrow> (string \<times> pyval) list \<Rightarrow> (string \<times> pyval) list" where
  "dict_merge base extra = fold (\<lambda>(k, v). AList.update k v) extra base"

text \<open>\<^verbatim>\<open>x.get(key)\<close>: only a dictionary has the method.\<close>

definition py_get :: "pyval \<Rightarrow> string \<Rightarrow> exn + pyval" where
  "py_get x k = (case x of
      PDict kvs \<Rightarrow> Inr (case dict_get kvs k of None \<Rightarrow> PNone | Some v \<Rightarrow> v)
    | _ \<Rightarrow> Inl (AttributeError (quoted (type_name x) @ '' object has no attribute '' @ quoted ''get'')))"

text \<open>\<^verbatim>\<open>x[key]\<close> with a string key.\<close>

definition py_item :: "pyval \<Rightarrow> string \<Rightarrow> exn + pyval" where
  "py_item x k = (case x of
      PDict kvs \<Rightarrow> (case dict_get kvs k of None \<Rightarrow> Inl (KeyError (repr_str k)) | Some v \<Rightarrow> Inr v)
    | PStr _ \<Rightarrow> Inl (TypeError ''string indices must be integers'')
    | PList _ \<Rightarrow> Inl (TypeError ''list indices must be integers or slices, not str'')
    | _ \<Rightarrow> Inl (TypeError (quoted (type_name x) @ '' object is not subscriptable'')))"

text \<open>\<^verbatim>\<open>x[0]\<close>.\<close>

definition py_first :: "pyval \<Rightarrow> exn + pyval" where
  "py_first x = (case x of
      PList (y # _) \<Rightarrow> Inr y
    | PList [] \<Rightarrow> Inl (IndexError ''list index out of range'')
    | PStr (c # _) \<Rightarrow> Inr (PStr [c])
    | PStr [] \<Rightarrow> Inl (IndexError ''string index out of range'')
    | PDict _ \<Rightarrow> Inl (KeyError ''0'')
    | _ \<Rightarrow> Inl (TypeError (quoted (type_name x) @ '' object is not subscriptable'')))"

section \<open>Rank hierarchy\<close>

definition RANK_HIERARCHY :: "(string \<times> int) list" where
  "RANK_HIERARCHY =
    [(''Aspirant'', 1), (''Novice'', 2), (''Adept'', 3), (''Crusader'', 4), (''Paladin'', 5),
     (''Exemplar'', 6), (''Prospect'', 7), (''Commander'', 8), (''Marshal'', 9),
     (''General'', 10), (''Chief General'', 11)]"

text \<open>\<^verbatim>\<open>RANK_HIERARCHY.get(rank_name, 0)\<close>: the key is hashed first, so a list or a
  dictionary raises; every other value that is not a key of the table gives 0.\<close>

definition get_rank_level :: "pyval \<Rightarrow> exn + int" where
  "get_rank_level rank_name = (case rank_name of
      PStr s \<Rightarrow> Inr (case map_of RANK_HIERARCHY s of Some n \<Rightarrow> n | None \<Rightarrow> 0)
    | PList _ \<Rightarrow> Inl (TypeError (''unhashable type: '' @ quoted ''list''))
    | PDict _ \<Rightarrow> Inl (TypeError (''unhashable type: '' @ quoted ''dict''))
    | _ \<Rightarrow> Inr 0)"

definition denied_message :: "pyval \<Rightarrow> pyval \<Rightarrow> string" where
  "denied_message user_rank target_rank =
     ''You don't have permission to change this member's rank. '' @
     ''The target is a **'' @ py_str target_rank @ ''** and you are a **'' @
     py_str user_rank @ ''**. '' @
     ''You can only change ranks of members below your level.''"

definition can_modify_rank ::
    "pyval \<Rightarrow> pyval \<Rightarrow> int option \<Rightarrow> int option \<Rightarrow> exn + (bool \<times> string)" where
  "can_modify_rank user_rank target_rank target_member_id user_member_id =
     (if int_truthy target_member_id \<and> int_truthy user_member_id
         \<and> target_member_id = user_member_id
      then Inr (False, ''You cannot change your own rank.'')
      else case get_rank_level user_rank of
          Inl e \<Rightarrow> Inl e
        | Inr user_level \<Rightarrow>
           (case get_rank_level target_rank of
              Inl e \<Rightarrow> Inl e
            | Inr target_level \<Rightarrow>
                if user_level = 0 then Inr (False, ''Unknown user rank: '' @ py_str user_rank)
                else if target_level = 0
                  then Inr (False, ''Unknown target rank: '' @ py_str target_rank)
                else if user_level \<le> target_level
                  then Inr (False, denied_message user_rank target_rank)
                else Inr (True, ''Permission granted'')))"

section \<open>The API client\<close>

record TFSystemAPI =
  api_url :: string
  api_key :: string
  headers :: "(string \<times> string) list"

text \<open>The constructor: an argument that is None or empty falls back to the environment,
  and a missing key is a ValueError.\<close>

definition getenv :: "(string \<rightharpoonup> string) \<Rightarrow> string \<Rightarrow> string \<Rightarrow> string" where
  "getenv env k d = (case env k of None \<Rightarrow> d | Some v \<Rightarrow> v)"

definition init :: "(string \<rightharpoonup> string) \<Rightarrow> string option \<Rightarrow> string option \<Rightarrow> exn + TFSystemAPI" where
  "init env url key =
     (let u = (if str_truthy url then the url
               else getenv env ''TF_SYSTEM_API_URL'' ''http://localhost:5000/api/v1'');
          k = (if str_truthy key then the key else getenv env ''TF_SYSTEM_API_KEY'' '''')
      in if k = []
         then Inl (ValueError
           ''API key must be provided or set in TF_SYSTEM_API_KEY environment variable'')
         else Inr \<lparr>api_url = u, api_key = k,
                   headers = [(''Authorization'', ''Bearer '' @ k),
                              (''Content-Type'', ''application/json'')]\<rparr>)"

subsection \<open>The remote service\<close>

text \<open>One call of \<^verbatim>\<open>session.request(method, url, headers=..., **kwargs)\<close>.\<close>

record http_request =
  req_method :: string
  req_url :: string
  req_headers :: "(string \<times> string) list"
  req_kwargs :: "(string \<times> pyval) list"

text \<open>
  Where an exception raised inside the \<^verbatim>\<open>try\<close> block stands in Python's hierarchy,
  as the two \<^verbatim>\<open>except\<close> clauses test it: an \<^verbatim>\<open>aiohttp.ClientError\<close>, another
  subclass of \<^verbatim>\<open>Exception\<close>, or a \<^verbatim>\<open>BaseException\<close> that is not an
  \<^verbatim>\<open>Exception\<close> (task cancellation, interpreter exit).
\<close>

datatype exc_class = ClientError | OtherException | NotException

text \<open>What went wrong when a call raises: the three transport failures the specification
  names, any other error of the HTTP library, any other \<^verbatim>\<open>Exception\<close> (a body that is
  not JSON, for one), and an interruption that is no \<^verbatim>\<open>Exception\<close> (the task was
  cancelled).\<close>

datatype failure =
    DnsFailure
  | ConnectionRefused
  | Timeout
  | OtherClientError
  | OtherFailure
  | Interrupted

text \<open>Modelled from the spec: the exception classes of the HTTP library, which the
  \<^verbatim>\<open>except aiohttp.ClientError\<close> clause tests, are not in the repository. Sections 4.2
  and 7 of the specification give the transport-level failures, DNS, refused connection and
  timeout, as the ones that yield \<open>connection_error\<close>, so these three are taken to be raised
  as \<^verbatim>\<open>aiohttp.ClientError\<close>.\<close>

definition exc_class_of :: "failure \<Rightarrow> exc_class" where
  "exc_class_of f = (case f of
      DnsFailure \<Rightarrow> ClientError
    | ConnectionRefused \<Rightarrow> ClientError
    | Timeout \<Rightarrow> ClientError
    | OtherClientError \<Rightarrow> ClientError
    | OtherFailure \<Rightarrow> OtherException
    | Interrupted \<Rightarrow> NotException)"

text \<open>The outcome of issuing the call and awaiting \<^verbatim>\<open>response.json()\<close>: a status
  with the parsed body, or an exception with its \<^verbatim>\<open>str(e)\<close>.\<close>

datatype http_outcome =
    Responded nat pyval
  | Raised failure string

text \<open>The remote service answers each call with an outcome. The operations below issue at
  most two calls, to different endpoints, so a function of the call loses nothing.\<close>

type_synonym server = "http_request \<Rightarrow> http_outcome"

text \<open>What a client operation did, in order: the HTTP calls it issued and the permission
  checks it asked for.\<close>

datatype event =
    Http http_request
  | PermissionCheck pyval pyval

definition envelope :: "string \<Rightarrow> string \<Rightarrow> (string \<times> pyval) list" where
  "envelope err msg =
     [(''success'', PBool False), (''error'', PStr err), (''message'', PStr msg)]"

definition rate_limit_message :: string where
  "rate_limit_message = ''Rate limit exceeded. Please wait a moment and try again.''"

text \<open>
  \<^verbatim>\<open>_request\<close>. The 429 branch unpacks the body into the dictionary literal inside the
  \<^verbatim>\<open>try\<close> block: a body that is not a dictionary raises a TypeError there, which
  the second \<^verbatim>\<open>except\<close> clause turns into an envelope.
\<close>

definition request ::
    "TFSystemAPI \<Rightarrow> server \<Rightarrow> string \<Rightarrow> string \<Rightarrow> (string \<times> pyval) list
      \<Rightarrow> (exn + pyval) \<times> event list" where
  "request self srv method endpoint kwargs =
     (let url = api_url self @ endpoint;
          req = \<lparr>req_method = method, req_url = url, req_headers = headers self,
                 req_kwargs = kwargs\<rparr>
      in ((case srv req of
             Responded status data \<Rightarrow>
               if status = 429 then
                 (case data of
                    PDict body \<Rightarrow>
                      Inr (PDict (dict_merge (envelope ''rate_limit'' rate_limit_message) body))
                  | _ \<Rightarrow>
                      Inr (PDict (envelope ''unknown_error''
                        (''Unexpected error: '' @ quoted (type_name data)
                           @ '' object is not a mapping''))))
               else Inr data
           | Raised e msg \<Rightarrow>
               (case exc_class_of e of
                  ClientError \<Rightarrow>
                    Inr (PDict (envelope ''connection_error''
                          (''Failed to connect to TF System: '' @ msg)))
                | OtherException \<Rightarrow>
                    Inr (PDict (envelope ''unknown_error'' (''Unexpected error: '' @ msg)))
                | NotException \<Rightarrow> Inl (Propagated msg))),
          [Http req]))"

subsection \<open>Endpoint bindings\<close>

definition search_member ::
    "TFSystemAPI \<Rightarrow> server \<Rightarrow> string \<Rightarrow> string \<Rightarrow> (exn + pyval) \<times> event list" where
  "search_member self srv name field =
     (let params = [(''q'', PStr name), (''field'', PStr field)]
      in request self srv ''GET'' ''/members/search'' [(''params'', PDict params)])"

definition change_member_rank ::
    "TFSystemAPI \<Rightarrow> server \<Rightarrow> pyval \<Rightarrow> string \<Rightarrow> string option \<Rightarrow> string option
      \<Rightarrow> (exn + pyval) \<times> event list" where
  "change_member_rank self srv member_id new_rank reason discord_user_id =
     (let data = [(''rank'', PStr new_rank),
                  (''reason'', PStr (if str_truthy reason then the reason
                                     else ''Changed via Discord Bot'')),
                  (''promoted_by'', PStr ''Discord Bot'')];
          data = (if str_truthy discord_user_id
                  then AList.update ''discord_user_id'' (PStr (the discord_user_id)) data
                  else data)
      in request self srv ''PATCH'' (''/members/'' @ py_str member_id @ ''/rank'')
           [(''json'', PDict data)])"

subsection \<open>Helper methods\<close>

definition find_member_by_name ::
    "TFSystemAPI \<Rightarrow> server \<Rightarrow> string \<Rightarrow> (exn + pyval) \<times> event list" where
  "find_member_by_name self srv name =
     (case search_member self srv name ''both'' of
        (Inl e, tr) \<Rightarrow> (Inl e, tr)
      | (Inr result, tr) \<Rightarrow>
          (case py_get result ''success'' of
             Inl e \<Rightarrow> (Inl e, tr)
           | Inr ok \<Rightarrow>
               if \<not> py_truthy ok then (Inr PNone, tr)
               else (case py_get result ''matches'' of
                  Inl e \<Rightarrow> (Inl e, tr)
                | Inr ms \<Rightarrow>
                    if \<not> py_truthy ms then (Inr PNone, tr)
                    else (case py_item result ''matches'' of
                       Inl e \<Rightarrow> (Inl e, tr)
                     | Inr ms' \<Rightarrow> (py_first ms', tr)))))"

definition not_found_message :: "string \<Rightarrow> string" where
  "not_found_message member_name =
     ''Could not find member with name '' @ [CHR 0x22] @ member_name @ [CHR 0x22]"

definition change_rank_by_name ::
    "TFSystemAPI \<Rightarrow> server \<Rightarrow> string \<Rightarrow> string \<Rightarrow> string option \<Rightarrow> string option
      \<Rightarrow> string option \<Rightarrow> (exn + pyval) \<times> event list" where
  "change_rank_by_name self srv member_name new_rank reason discord_user_id user_rank =
     (case find_member_by_name self srv member_name of
        (Inl e, tr) \<Rightarrow> (Inl e, tr)
      | (Inr member, tr) \<Rightarrow>
          if \<not> py_truthy member
          then (Inr (PDict (envelope ''member_not_found'' (not_found_message member_name))), tr)
          else
            let change = (\<lambda>tr'.
                  case py_item member ''id'' of
                    Inl e \<Rightarrow> (Inl e, tr')
                  | Inr member_id \<Rightarrow>
                      (case change_member_rank self srv member_id new_rank reason
                              discord_user_id of
                         (r, tr'') \<Rightarrow> (r, tr' @ tr'')))
            in if str_truthy user_rank then
                 (case py_item member ''current_rank'' of
                    Inl e \<Rightarrow> (Inl e, tr)
                  | Inr target_rank \<Rightarrow>
                      (let tr' = tr @ [PermissionCheck (PStr (the user_rank)) target_rank]
                       in case can_modify_rank (PStr (the user_rank)) target_rank None None of
                            Inl e \<Rightarrow> (Inl e, tr')
                          | Inr (can_modify, reason_msg) \<Rightarrow>
                              if \<not> can_modify
                              then (Inr (PDict (envelope ''permission_denied'' reason_msg)), tr')
                              else change tr'))
               else change tr)"

text \<open>Whether a trace holds a call of the rank-mutation endpoint, the only PATCH of the
  client.\<close>

fun is_mutation :: "event \<Rightarrow> bool" where
  "is_mutation (Http req) = (req_method req = ''PATCH'')"
| "is_mutation (PermissionCheck _ _) = False"

fun is_permission_check :: "event \<Rightarrow> bool" where
  "is_permission_check (PermissionCheck _ _) = True"
| "is_permission_check (Http _) = False"

text \<open>The call that \<^verbatim>\<open>find_member_by_name\<close> issues for a name.\<close>

definition search_request :: "TFSystemAPI \<Rightarrow> string \<Rightarrow> http_request" where
  "search_request self name =
     \<lparr>req_method = ''GET'', req_url = api_url self @ ''/members/search'',
      req_headers = headers self,
      req_kwargs = [(''params'', PDict [(''q'', PStr name), (''field'', PStr ''both'')])]\<rparr>"

section \<open>Test doubles\<close>

text \<open>A client and remote services with fixed answers, for the concrete runs below.\<close>

definition api0 :: TFSystemAPI where
  "api0 = \<lparr>api_url = ''http://localhost:5000/api/v1'', api_key = ''secret'',
           headers = [(''Authorization'', ''Bearer secret''),
                      (''Content-Type'', ''application/json'')]\<rparr>"

definition member_bob :: pyval where
  "member_bob = PDict [(''id'', PInt 7), (''discord_username'', PStr ''bob''),
                       (''current_rank'', PStr ''Marshal'')]"

definition member_alice :: pyval where
  "member_alice = PDict [(''id'', PInt 12), (''discord_username'', PStr ''alice''),
                         (''current_rank'', PStr ''Novice'')]"

text \<open>A service whose search finds exactly the given member and whose other endpoints
  succeed.\<close>

definition srv_one_match :: "pyval \<Rightarrow> server" where
  "srv_one_match m req =
     (if req_method req = ''GET''
      then Responded 200 (PDict [(''success'', PBool True), (''matches'', PList [m])])
      else Responded 200 (PDict [(''success'', PBool True)]))"

definition srv_no_match :: server where
  "srv_no_match req = Responded 200 (PDict [(''success'', PBool True), (''matches'', PList [])])"

definition srv_rate_limited :: server where
  "srv_rate_limited req =
     Responded 429 (PDict [(''error'', PStr ''too_many_requests''), (''retry_after'', PInt 30)])"

definition srv_refused :: server where
  "srv_refused req = Raised ConnectionRefused ''Cannot connect to host localhost:5000''"





text \<open>Services whose search answers with a body of another shape: a JSON list, and an
  object whose \<open>matches\<close> field is an object keyed by name.\<close>

definition srv_list_body :: server where
  "srv_list_body req = Responded 200 (PList [member_alice])"

definition srv_matches_object :: server where
  "srv_matches_object req =
     Responded 200 (PDict [(''success'', PBool True),
                           (''matches'', PDict [(''alice'', member_alice)])])"

section \<open>The rank table\<close>

lemma level_of_string:
  "get_rank_level (PStr s) = Inr (case map_of RANK_HIERARCHY s of Some n \<Rightarrow> n | None \<Rightarrow> 0)"
  by (simp add: get_rank_level_def)

lemma table_names:
  "map fst RANK_HIERARCHY =
     [''Aspirant'', ''Novice'', ''Adept'', ''Crusader'', ''Paladin'', ''Exemplar'',
      ''Prospect'', ''Commander'', ''Marshal'', ''General'', ''Chief General'']"
  by (simp add: RANK_HIERARCHY_def)

lemma table_levels: "map snd RANK_HIERARCHY = [1, 2, 3, 4, 5, 6, 7, 8, 9, 10, 11]"
  by (simp add: RANK_HIERARCHY_def)

lemma table_distinct: "distinct (map fst RANK_HIERARCHY)"
  unfolding table_names by simp

lemma level_nth:
  assumes "i < length RANK_HIERARCHY"
  shows "get_rank_level (PStr (fst (RANK_HIERARCHY ! i))) = Inr (int i + 1)"
proof -
  have "map_of RANK_HIERARCHY (fst (RANK_HIERARCHY ! i)) = Some (snd (RANK_HIERARCHY ! i))"
    using assms table_distinct by (metis map_of_eq_Some_iff nth_mem prod.collapse)
  moreover have "snd (RANK_HIERARCHY ! i) = int i + 1"
  proof -
    have "snd (RANK_HIERARCHY ! i) = map snd RANK_HIERARCHY ! i" using assms by simp
    also have "\<dots> = map (\<lambda>i. int i + 1) [0..<11] ! i"
      unfolding table_levels by (simp add: upt_rec)
    also have "\<dots> = int i + 1" using assms by (simp add: RANK_HIERARCHY_def)
    finally show ?thesis .
  qed
  ultimately show ?thesis by (simp add: level_of_string)
qed

lemma level_unknown:
  "s \<notin> set (map fst RANK_HIERARCHY) \<Longrightarrow> get_rank_level (PStr s) = Inr 0"
  by (simp add: level_of_string map_of_eq_None_iff[THEN iffD2])

lemma level_known:
  assumes "s \<in> set (map fst RANK_HIERARCHY)"
  shows "\<exists>n. get_rank_level (PStr s) = Inr n \<and> 1 \<le> n \<and> n \<le> 11"
proof -
  from assms obtain i where i: "i < length RANK_HIERARCHY" "s = fst (RANK_HIERARCHY ! i)"
    by (metis in_set_conv_nth length_map nth_map)
  then have "get_rank_level (PStr s) = Inr (int i + 1)" using level_nth by simp
  moreover have "i < 11" using i by (simp add: RANK_HIERARCHY_def)
  ultimately show ?thesis by simp
qed

text \<open>
  Claim C9. For every string, \<open>get_rank_level\<close> returns a level and never raises. The
  table has 11 entries with distinct names; the entry at position \<open>i\<close> (counted from 0)
  has level \<open>i + 1\<close>, so the levels are the positions 1 to 11, with Aspirant first and
  Chief General last. A name outside the table has level 0, and only such a name has.
\<close>

theorem get_rank_level_positions:
  "length RANK_HIERARCHY = 11
   \<and> distinct (map fst RANK_HIERARCHY)
   \<and> (\<forall>i < 11. get_rank_level (PStr (fst (RANK_HIERARCHY ! i))) = Inr (int i + 1))
   \<and> (s \<notin> set (map fst RANK_HIERARCHY) \<longrightarrow> get_rank_level (PStr s) = Inr 0)
   \<and> (\<exists>n. get_rank_level (PStr s) = Inr n \<and> 0 \<le> n \<and> n \<le> 11
          \<and> (n = 0 \<longleftrightarrow> s \<notin> set (map fst RANK_HIERARCHY)))
   \<and> fst (RANK_HIERARCHY ! 0) = ''Aspirant'' \<and> fst (RANK_HIERARCHY ! 10) = ''Chief General''"
proof -
  have len: "length RANK_HIERARCHY = 11" by (simp add: RANK_HIERARCHY_def)
  have nth: "\<forall>i < 11. get_rank_level (PStr (fst (RANK_HIERARCHY ! i))) = Inr (int i + 1)"
    using level_nth len by simp
  have unk: "s \<notin> set (map fst RANK_HIERARCHY) \<longrightarrow> get_rank_level (PStr s) = Inr 0"
    using level_unknown by blast
  have rng: "\<exists>n. get_rank_level (PStr s) = Inr n \<and> 0 \<le> n \<and> n \<le> 11
          \<and> (n = 0 \<longleftrightarrow> s \<notin> set (map fst RANK_HIERARCHY))"
  proof (cases "s \<in> set (map fst RANK_HIERARCHY)")
    case True
    then show ?thesis using level_known[OF True] by auto
  next
    case False
    then show ?thesis using level_unknown[OF False] by simp
  qed
  have ends: "fst (RANK_HIERARCHY ! 0) = ''Aspirant''
      \<and> fst (RANK_HIERARCHY ! 10) = ''Chief General''"
    by (simp add: RANK_HIERARCHY_def)
  show ?thesis using len table_distinct nth unk rng ends by blast
qed

theorem get_rank_level_positions_witness:
  "get_rank_level (PStr ''Wizard'') = Inr 0
   \<and> get_rank_level (PStr (fst (RANK_HIERARCHY ! 8))) = Inr 9
   \<and> get_rank_level (PStr ''Aspirant'') = Inr 1
   \<and> get_rank_level (PStr ''Chief General'') = Inr 11"
  using get_rank_level_positions[of "''Wizard''"]
  by (simp add: RANK_HIERARCHY_def get_rank_level_def)

section \<open>The permission decision\<close>

lemma denied_message_names_user: "sublist (py_str u) (denied_message u t)"
  unfolding denied_message_def sublist_def by (metis append.assoc)

lemma denied_message_names_target: "sublist (py_str t) (denied_message u t)"
  unfolding denied_message_def sublist_def by (metis append.assoc)

lemma can_modify_rank_by_levels:
  assumes "get_rank_level u = Inr lu" and "get_rank_level t = Inr lt"
    and "\<not> (int_truthy tid \<and> int_truthy uid \<and> tid = uid)"
  shows "can_modify_rank u t tid uid =
     (if lu = 0 then Inr (False, ''Unknown user rank: '' @ py_str u)
      else if lt = 0 then Inr (False, ''Unknown target rank: '' @ py_str t)
      else if lu \<le> lt then Inr (False, denied_message u t)
      else Inr (True, ''Permission granted''))"
  using assms by (auto simp add: can_modify_rank_def)

text \<open>
  Claim C2. For rank names \<open>a\<close> (the user's) and \<open>b\<close> (the target's) of the table and no
  member ids, \<open>can_modify_rank\<close> allows exactly when the level of \<open>a\<close> is strictly above
  the level of \<open>b\<close>; otherwise, so also at equal levels and for \<open>a = b\<close>, it denies with
  the message that holds both rank names.
\<close>

theorem can_modify_rank_strictly_higher:
  assumes "a \<in> set (map fst RANK_HIERARCHY)" and "b \<in> set (map fst RANK_HIERARCHY)"
  shows "\<exists>la lb. get_rank_level (PStr a) = Inr la \<and> get_rank_level (PStr b) = Inr lb
     \<and> can_modify_rank (PStr a) (PStr b) None None =
         Inr (lb < la, if lb < la then ''Permission granted''
                       else denied_message (PStr a) (PStr b))
     \<and> sublist a (denied_message (PStr a) (PStr b))
     \<and> sublist b (denied_message (PStr a) (PStr b))"
proof -
  from level_known[OF assms(1)] obtain la
    where la: "get_rank_level (PStr a) = Inr la" "1 \<le> la" by blast
  from level_known[OF assms(2)] obtain lb
    where lb: "get_rank_level (PStr b) = Inr lb" "1 \<le> lb" by blast
  have "can_modify_rank (PStr a) (PStr b) None None =
         Inr (lb < la, if lb < la then ''Permission granted''
                       else denied_message (PStr a) (PStr b))"
    using la lb by (simp add: can_modify_rank_by_levels[OF la(1) lb(1)])
  moreover have "sublist a (denied_message (PStr a) (PStr b))"
    using denied_message_names_user[of "PStr a" "PStr b"] by (simp add: py_str_def)
  moreover have "sublist b (denied_message (PStr a) (PStr b))"
    using denied_message_names_target[of "PStr b" "PStr a"] by (simp add: py_str_def)
  ultimately show ?thesis using la lb by blast
qed

theorem can_modify_rank_strictly_higher_witness:
  "can_modify_rank (PStr ''Marshal'') (PStr ''Novice'') None None =
     Inr (True, ''Permission granted'')
   \<and> can_modify_rank (PStr ''Novice'') (PStr ''Marshal'') None None =
     Inr (False, denied_message (PStr ''Novice'') (PStr ''Marshal''))
   \<and> can_modify_rank (PStr ''Commander'') (PStr ''Commander'') None None =
     Inr (False, denied_message (PStr ''Commander'') (PStr ''Commander''))"
  using can_modify_rank_strictly_higher[of "''Marshal''" "''Novice''"]
    can_modify_rank_strictly_higher[of "''Novice''" "''Marshal''"]
    can_modify_rank_strictly_higher[of "''Commander''" "''Commander''"]
  by (auto simp add: RANK_HIERARCHY_def get_rank_level_def)

text \<open>
  Claim C3, as stated: equal member ids given for both sides always deny with the
  self-modification reason. The test of the code is \<^verbatim>\<open>target_member_id and
  user_member_id and ...\<close>, which the id 0 does not pass: with both ids 0 the check is
  skipped and the levels decide.
\<close>

theorem can_modify_rank_zero_ids_allowed:
  "can_modify_rank (PStr ''Marshal'') (PStr ''Novice'') (Some 0) (Some 0) =
     Inr (True, ''Permission granted'')"
  by (simp add: can_modify_rank_def get_rank_level_def RANK_HIERARCHY_def)

text \<open>
  Claim C3, amended. For every pair of equal member ids other than 0 and for all values of
  the two ranks, known, unknown or not even hashable, \<open>can_modify_rank\<close> denies with the
  self-modification reason: the check comes before any lookup of a level.
\<close>

theorem can_modify_rank_own_rank:
  assumes "i \<noteq> 0"
  shows "can_modify_rank user_rank target_rank (Some i) (Some i) =
           Inr (False, ''You cannot change your own rank.'')"
  using assms by (simp add: can_modify_rank_def)

theorem can_modify_rank_own_rank_witness:
  "can_modify_rank (PList []) (PStr ''Nobody'') (Some 7) (Some 7) =
     Inr (False, ''You cannot change your own rank.'')"
  using can_modify_rank_own_rank[of 7 "PList []" "PStr ''Nobody''"] by simp

text \<open>
  Claim C5. With member ids that are absent or unequal, a user rank name outside the table
  is denied with the message naming that user rank, whatever the target rank is; a user
  rank of the table with a target rank name outside the table is denied with the message
  naming that target rank.
\<close>

theorem can_modify_rank_unknown_rank:
  assumes "tid = None \<or> uid = None \<or> tid \<noteq> uid"
  shows "(a \<notin> set (map fst RANK_HIERARCHY) \<longrightarrow>
            can_modify_rank (PStr a) (PStr b) tid uid =
              Inr (False, ''Unknown user rank: '' @ a))
       \<and> (a \<in> set (map fst RANK_HIERARCHY) \<and> b \<notin> set (map fst RANK_HIERARCHY) \<longrightarrow>
            can_modify_rank (PStr a) (PStr b) tid uid =
              Inr (False, ''Unknown target rank: '' @ b))"
proof -
  have ids: "\<not> (int_truthy tid \<and> int_truthy uid \<and> tid = uid)" using assms by auto
  obtain lb where lb: "get_rank_level (PStr b) = Inr lb" by (simp add: level_of_string)
  show ?thesis
  proof (intro conjI impI)
    assume "a \<notin> set (map fst RANK_HIERARCHY)"
    then have "get_rank_level (PStr a) = Inr 0" by (rule level_unknown)
    then show "can_modify_rank (PStr a) (PStr b) tid uid =
        Inr (False, ''Unknown user rank: '' @ a)"
      using can_modify_rank_by_levels[OF _ lb ids, of "PStr a" 0] by (simp add: py_str_def)
  next
    assume ab: "a \<in> set (map fst RANK_HIERARCHY) \<and> b \<notin> set (map fst RANK_HIERARCHY)"
    then obtain la where la: "get_rank_level (PStr a) = Inr la" "1 \<le> la"
      using level_known by blast
    have "get_rank_level (PStr b) = Inr 0" using ab level_unknown by blast
    then show "can_modify_rank (PStr a) (PStr b) tid uid =
        Inr (False, ''Unknown target rank: '' @ b)"
      using can_modify_rank_by_levels[OF la(1) _ ids, of "PStr b" 0] la
      by (simp add: py_str_def)
  qed
qed

theorem can_modify_rank_unknown_rank_witness:
  "can_modify_rank (PStr ''Wizard'') (PStr ''Ghost'') (Some 1) (Some 2) =
     Inr (False, ''Unknown user rank: Wizard'')
   \<and> can_modify_rank (PStr ''Marshal'') (PStr ''Ghost'') None None =
     Inr (False, ''Unknown target rank: Ghost'')"
  using can_modify_rank_unknown_rank[of "Some 1" "Some 2" "''Wizard''" "''Ghost''"]
    can_modify_rank_unknown_rank[of None None "''Marshal''" "''Ghost''"]
  by (simp add: RANK_HIERARCHY_def)

section \<open>The request primitive\<close>

lemma request_trace:
  "snd (request self srv method endpoint kwargs) =
     [Http \<lparr>req_method = method, req_url = api_url self @ endpoint,
            req_headers = headers self, req_kwargs = kwargs\<rparr>]"
  by (simp add: request_def Let_def)

lemma map_of_dict_merge:
  "distinct (map fst extra) \<Longrightarrow> map_of (dict_merge base extra) = map_of base ++ map_of extra"
proof (induction extra arbitrary: base)
  case Nil
  then show ?case by (simp add: dict_merge_def)
next
  case (Cons kv extra)
  obtain k v where kv: "kv = (k, v)" by (cases kv)
  have notin: "k \<notin> fst ` set extra" and d: "distinct (map fst extra)"
    using Cons.prems kv by auto
  have none: "map_of extra k = None" using notin by (simp add: map_of_eq_None_iff)
  have "map_of (dict_merge base (kv # extra)) = map_of (dict_merge (AList.update k v base) extra)"
    by (simp add: dict_merge_def kv)
  also have "\<dots> = map_of (AList.update k v base) ++ map_of extra" using Cons.IH[OF d] .
  also have "\<dots> = (map_of base)(k \<mapsto> v) ++ map_of extra" by (simp add: update_conv')
  also have "\<dots> = map_of base ++ map_of (kv # extra)"
  proof
    fix x
    show "((map_of base)(k \<mapsto> v) ++ map_of extra) x = (map_of base ++ map_of (kv # extra)) x"
      using none by (auto simp add: kv map_add_def split: option.splits)
  qed
  finally show ?case .
qed

text \<open>
  Claim C7, as stated: a 429 response always gives error \<open>rate_limit\<close>, success false and
  the fixed message. The body is unpacked after the three fixed fields, so a body field of
  the same name replaces the fixed one: a body with its own \<open>error\<close> field keeps it.
\<close>

theorem request_rate_limit_body_overrides:
  "fst (request api0 srv_rate_limited ''GET'' ''/status'' []) =
     Inr (PDict [(''success'', PBool False), (''error'', PStr ''too_many_requests''),
                 (''message'', PStr ''Rate limit exceeded. Please wait a moment and try again.''),
                 (''retry_after'', PInt 30)])"
  by (simp add: request_def srv_rate_limited_def dict_merge_def envelope_def
      rate_limit_message_def Let_def)

text \<open>
  Claim C7, amended. For every response with status 429 whose parsed body is a JSON object
  (each key once), the request primitive returns an envelope that holds every field of the
  body with the body's value; each of \<open>success\<close>, \<open>error\<close> and \<open>message\<close> that the body does
  not define is false, \<open>rate_limit\<close> and the fixed rate-limit text; the envelope has no
  other field.
\<close>

theorem request_rate_limit_merge:
  assumes "srv \<lparr>req_method = method, req_url = api_url self @ endpoint,
                req_headers = headers self, req_kwargs = kwargs\<rparr> = Responded 429 (PDict body)"
    and "distinct (map fst body)"
  shows "\<exists>env. request self srv method endpoint kwargs =
            (Inr (PDict env),
             [Http \<lparr>req_method = method, req_url = api_url self @ endpoint,
                    req_headers = headers self, req_kwargs = kwargs\<rparr>])
          \<and> (\<forall>k. dict_get env k =
                (case dict_get body k of
                    Some v \<Rightarrow> Some v
                  | None \<Rightarrow> dict_get [(''success'', PBool False), (''error'', PStr ''rate_limit''),
                       (''message'',
                        PStr ''Rate limit exceeded. Please wait a moment and try again.'')] k))"
proof -
  let ?base = "[(''success'', PBool False), (''error'', PStr ''rate_limit''),
     (''message'', PStr ''Rate limit exceeded. Please wait a moment and try again.'')]"
  have base: "envelope ''rate_limit'' rate_limit_message = ?base"
    by (simp add: envelope_def rate_limit_message_def)
  have r: "request self srv method endpoint kwargs =
            (Inr (PDict (dict_merge ?base body)),
             [Http \<lparr>req_method = method, req_url = api_url self @ endpoint,
                    req_headers = headers self, req_kwargs = kwargs\<rparr>])"
    using assms(1) unfolding request_def base by (simp add: Let_def)
  have m: "map_of (dict_merge ?base body) = map_of ?base ++ map_of body"
    using assms(2) by (rule map_of_dict_merge)
  have "\<forall>k. dict_get (dict_merge ?base body) k =
     (case dict_get body k of Some v \<Rightarrow> Some v | None \<Rightarrow> dict_get ?base k)"
    by (simp only: dict_get_def m map_add_def simp_thms)
  then show ?thesis using r by blast
qed

theorem request_rate_limit_merge_witness:
  "\<exists>env. fst (request api0 srv_rate_limited ''GET'' ''/status'' []) = Inr (PDict env)
     \<and> dict_get env ''success'' = Some (PBool False)
     \<and> dict_get env ''error'' = Some (PStr ''too_many_requests'')
     \<and> dict_get env ''message'' =
          Some (PStr ''Rate limit exceeded. Please wait a moment and try again.'')
     \<and> dict_get env ''retry_after'' = Some (PInt 30)"
proof -
  let ?body = "[(''error'', PStr ''too_many_requests''), (''retry_after'', PInt 30)]"
  have h1: "srv_rate_limited \<lparr>req_method = ''GET'', req_url = api_url api0 @ ''/status'',
                req_headers = headers api0, req_kwargs = []\<rparr> = Responded 429 (PDict ?body)"
    by (simp add: srv_rate_limited_def)
  have h2: "distinct (map fst ?body)" by simp
  from request_rate_limit_merge[of srv_rate_limited "''GET''" api0 "''/status''" "[]" "?body",
      OF h1 h2]
  obtain env where
    e: "request api0 srv_rate_limited ''GET'' ''/status'' [] =
            (Inr (PDict env),
             [Http \<lparr>req_method = ''GET'', req_url = api_url api0 @ ''/status'',
                    req_headers = headers api0, req_kwargs = []\<rparr>])"
    and l: "\<And>k. dict_get env k =
                (case dict_get ?body k of
                    Some v \<Rightarrow> Some v
                  | None \<Rightarrow> dict_get [(''success'', PBool False), (''error'', PStr ''rate_limit''),
                       (''message'',
                        PStr ''Rate limit exceeded. Please wait a moment and try again.'')] k)"
    by blast
  have "fst (request api0 srv_rate_limited ''GET'' ''/status'' []) = Inr (PDict env)"
    using e by simp
  moreover have "dict_get env ''success'' = Some (PBool False)"
    using l[of "''success''"] by (simp add: dict_get_def)
  moreover have "dict_get env ''error'' = Some (PStr ''too_many_requests'')"
    using l[of "''error''"] by (simp add: dict_get_def)
  moreover have "dict_get env ''message'' =
          Some (PStr ''Rate limit exceeded. Please wait a moment and try again.'')"
    using l[of "''message''"] by (simp add: dict_get_def)
  moreover have "dict_get env ''retry_after'' = Some (PInt 30)"
    using l[of "''retry_after''"] by (simp add: dict_get_def)
  ultimately show ?thesis by blast
qed




section \<open>Finding a member and changing a rank by name\<close>

lemma search_member_trace:
  "snd (search_member self srv name ''both'') = [Http (search_request self name)]"
  by (simp add: search_member_def search_request_def request_trace Let_def)

lemma find_member_by_name_trace:
  "snd (find_member_by_name self srv name) = [Http (search_request self name)]"
proof -
  obtain r tr where st: "search_member self srv name ''both'' = (r, tr)"
    by (cases "search_member self srv name ''both''")
  then have tr: "tr = [Http (search_request self name)]"
    using search_member_trace[of self srv name] by simp
  show ?thesis
    unfolding find_member_by_name_def st
    by (simp add: tr split: sum.splits)
qed

lemma search_request_method: "req_method (search_request self name) = ''GET''"
  by (simp add: search_request_def)

lemma find_alice:
  "find_member_by_name api0 (srv_one_match member_alice) ''alice'' =
     (Inr (PDict [(''id'', PInt 12), (''discord_username'', PStr ''alice''),
                  (''current_rank'', PStr ''Novice'')]),
      [Http (search_request api0 ''alice'')])"
  by (simp add: find_member_by_name_def search_member_def request_def srv_one_match_def
      member_alice_def py_get_def py_item_def py_first_def dict_get_def search_request_def
      Let_def)

lemma find_bob:
  "find_member_by_name api0 (srv_one_match member_bob) ''bob'' =
     (Inr (PDict [(''id'', PInt 7), (''discord_username'', PStr ''bob''),
                  (''current_rank'', PStr ''Marshal'')]),
      [Http (search_request api0 ''bob'')])"
  by (simp add: find_member_by_name_def search_member_def request_def srv_one_match_def
      member_bob_def py_get_def py_item_def py_first_def dict_get_def search_request_def
      Let_def)

text \<open>
  Claim C10, as stated: for every search result the outcome is the first element of the
  matches list or None. The request primitive passes any parsed body through, and
  \<open>find_member_by_name\<close> reads it with \<^verbatim>\<open>.get\<close> and \<^verbatim>\<open>['matches'][0]\<close>: a
  successful result whose non-empty \<open>matches\<close> field is an object raises a KeyError, and a
  body that is a JSON list raises an AttributeError.
\<close>

theorem find_member_by_name_other_shapes:
  "find_member_by_name api0 srv_matches_object ''alice'' =
     (Inl (KeyError ''0''), [Http (search_request api0 ''alice'')])
   \<and> find_member_by_name api0 srv_list_body ''alice'' =
     (Inl (AttributeError (quoted ''list'' @ '' object has no attribute '' @ quoted ''get'')),
      [Http (search_request api0 ''alice'')])"
  by (simp add: find_member_by_name_def search_member_def request_def srv_matches_object_def
      srv_list_body_def member_alice_def py_get_def py_item_def py_first_def dict_get_def
      type_name_def search_request_def Let_def)

text \<open>
  Claim C10, amended. Let the search return a dictionary \<open>r\<close> whose \<open>matches\<close> field is a
  list or is absent, with the trace \<open>tr\<close>. If \<open>matches\<close> is a list, \<open>find_member_by_name\<close>
  returns the first element of that list when the \<open>success\<close> field is true and the list is
  not empty, and None when the flag is not set or the list is empty. If there is no
  \<open>matches\<close> field, as in every error envelope of the request primitive, it returns None.
  It raises nothing in any of these cases and issues nothing but the search call.
\<close>

theorem find_member_by_name_first_match:
  assumes "search_member self srv name ''both'' = (Inr (PDict r), tr)"
  shows "(dict_get r ''matches'' = Some (PList (m # rest)) \<and> py_get (PDict r) ''success'' = Inr ok
            \<and> py_truthy ok \<longrightarrow>
          find_member_by_name self srv name = (Inr m, tr))
       \<and> (dict_get r ''matches'' = Some (PList ms) \<and> py_get (PDict r) ''success'' = Inr ok
            \<and> \<not> (py_truthy ok \<and> ms \<noteq> []) \<longrightarrow>
          find_member_by_name self srv name = (Inr PNone, tr))
       \<and> (dict_get r ''matches'' = None \<longrightarrow>
          find_member_by_name self srv name = (Inr PNone, tr))
       \<and> (r = [(''success'', PBool False), (''error'', PStr err), (''message'', PStr msg)] \<longrightarrow>
          find_member_by_name self srv name = (Inr PNone, tr))"
  by (auto simp add: find_member_by_name_def assms py_get_def py_item_def py_first_def
      dict_get_def split: option.splits)

theorem find_member_by_name_first_match_witness:
  "find_member_by_name api0 (srv_one_match member_bob) ''bob'' =
     (Inr member_bob, [Http (search_request api0 ''bob'')])
   \<and> find_member_by_name api0 srv_no_match ''bob'' =
     (Inr PNone, [Http (search_request api0 ''bob'')])
   \<and> find_member_by_name api0 srv_refused ''bob'' =
     (Inr PNone, [Http (search_request api0 ''bob'')])"
proof -
  have s1: "search_member api0 (srv_one_match member_bob) ''bob'' ''both'' =
      (Inr (PDict [(''success'', PBool True), (''matches'', PList [member_bob])]),
       [Http (search_request api0 ''bob'')])"
    by (simp add: search_member_def request_def srv_one_match_def search_request_def Let_def)
  have s2: "search_member api0 srv_no_match ''bob'' ''both'' =
      (Inr (PDict [(''success'', PBool True), (''matches'', PList [])]),
       [Http (search_request api0 ''bob'')])"
    by (simp add: search_member_def request_def srv_no_match_def search_request_def Let_def)
  have s3: "search_member api0 srv_refused ''bob'' ''both'' =
      (Inr (PDict [(''success'', PBool False), (''error'', PStr ''connection_error''),
         (''message'', PStr (''Failed to connect to TF System: ''
                               @ ''Cannot connect to host localhost:5000''))]),
       [Http (search_request api0 ''bob'')])"
    by (simp add: search_member_def request_def srv_refused_def search_request_def
        envelope_def exc_class_of_def Let_def)
  have a: "find_member_by_name api0 (srv_one_match member_bob) ''bob'' =
     (Inr member_bob, [Http (search_request api0 ''bob'')])"
    using find_member_by_name_first_match[OF s1, of member_bob "[]" "PBool True"]
    by (simp add: dict_get_def py_get_def)
  have b: "find_member_by_name api0 srv_no_match ''bob'' =
     (Inr PNone, [Http (search_request api0 ''bob'')])"
    using find_member_by_name_first_match[OF s2, of _ _ "PBool True" "[]"]
    by (simp add: dict_get_def py_get_def)
  have c: "find_member_by_name api0 srv_refused ''bob'' =
     (Inr PNone, [Http (search_request api0 ''bob'')])"
    using find_member_by_name_first_match[OF s3]
    by (simp add: dict_get_def)
  show ?thesis using a b c by blast
qed

text \<open>
  Claim C6. When \<open>find_member_by_name\<close> returns None, \<open>change_rank_by_name\<close> returns the
  envelope with success false, error \<open>member_not_found\<close> and the message that quotes the
  searched name; the only thing it has done is the search call, so neither the permission
  check nor the rank mutation has taken place.
\<close>

theorem change_rank_by_name_member_not_found:
  assumes "find_member_by_name self srv member_name = (Inr PNone, tr)"
  shows "change_rank_by_name self srv member_name new_rank reason discord_user_id user_rank =
           (Inr (PDict [(''success'', PBool False), (''error'', PStr ''member_not_found''),
                        (''message'', PStr (''Could not find member with name '' @ [CHR 0x22]
                                              @ member_name @ [CHR 0x22]))]),
            [Http (search_request self member_name)])
       \<and> \<not> list_ex is_mutation [Http (search_request self member_name)]
       \<and> \<not> list_ex is_permission_check [Http (search_request self member_name)]"
proof -
  have tr: "tr = [Http (search_request self member_name)]"
    using find_member_by_name_trace[of self srv member_name] assms by simp
  show ?thesis
    by (simp add: change_rank_by_name_def assms tr envelope_def not_found_message_def
        search_request_method)
qed

theorem change_rank_by_name_member_not_found_witness:
  "change_rank_by_name api0 srv_no_match ''bob'' ''General'' None None (Some ''Marshal'') =
     (Inr (PDict [(''success'', PBool False), (''error'', PStr ''member_not_found''),
                  (''message'', PStr (''Could not find member with name '' @ [CHR 0x22]
                                        @ ''bob'' @ [CHR 0x22]))]),
      [Http (search_request api0 ''bob'')])"
proof -
  have h: "find_member_by_name api0 srv_no_match ''bob'' =
      (Inr PNone, [Http (search_request api0 ''bob'')])"
    by (simp add: find_member_by_name_def search_member_def request_def srv_no_match_def
        py_get_def dict_get_def search_request_def Let_def)
  show ?thesis
    using change_rank_by_name_member_not_found[OF h, of "''General''" None None
        "Some ''Marshal''"]
    by simp
qed

text \<open>
  Claim C1, as stated: whenever a target is found and a user rank is given for which
  \<open>can_modify_rank\<close> denies, the result is \<open>permission_denied\<close> and no mutation is issued.
  The code checks permissions under \<^verbatim>\<open>if user_rank:\<close>, which the empty string does not
  pass: \<open>can_modify_rank\<close> denies the empty rank as unknown, yet the check is skipped and
  the PATCH call is issued.
\<close>

theorem change_rank_by_name_empty_user_rank:
  "fst (find_member_by_name api0 (srv_one_match member_bob) ''bob'') = Inr member_bob
   \<and> can_modify_rank (PStr '''') (PStr ''Marshal'') None None =
       Inr (False, ''Unknown user rank: '')
   \<and> change_rank_by_name api0 (srv_one_match member_bob) ''bob'' ''General'' None None
         (Some '''') =
       (Inr (PDict [(''success'', PBool True)]),
        [Http (search_request api0 ''bob''),
         Http \<lparr>req_method = ''PATCH'',
               req_url = ''http://localhost:5000/api/v1/members/7/rank'',
               req_headers = [(''Authorization'', ''Bearer secret''),
                              (''Content-Type'', ''application/json'')],
               req_kwargs = [(''json'', PDict [(''rank'', PStr ''General''),
                                (''reason'', PStr ''Changed via Discord Bot''),
                                (''promoted_by'', PStr ''Discord Bot'')])]\<rparr>])"
proof -
  have a: "fst (find_member_by_name api0 (srv_one_match member_bob) ''bob'') = Inr member_bob"
    unfolding find_bob by (simp add: member_bob_def)
  have b: "can_modify_rank (PStr '''') (PStr ''Marshal'') None None =
      Inr (False, ''Unknown user rank: '')"
    by (simp add: can_modify_rank_def get_rank_level_def RANK_HIERARCHY_def py_str_def)
  have id: "py_str (PInt 7) = ''7''"
    by (simp add: py_str_def int_str_def nat_str.simps)
  have cm: "change_member_rank api0 (srv_one_match member_bob) (PInt 7) ''General'' None None =
       (Inr (PDict [(''success'', PBool True)]),
        [Http \<lparr>req_method = ''PATCH'',
               req_url = ''http://localhost:5000/api/v1/members/7/rank'',
               req_headers = [(''Authorization'', ''Bearer secret''),
                              (''Content-Type'', ''application/json'')],
               req_kwargs = [(''json'', PDict [(''rank'', PStr ''General''),
                                (''reason'', PStr ''Changed via Discord Bot''),
                                (''promoted_by'', PStr ''Discord Bot'')])]\<rparr>])"
    by (simp add: change_member_rank_def request_def srv_one_match_def api0_def id Let_def)
  have c: "change_rank_by_name api0 (srv_one_match member_bob) ''bob'' ''General'' None None
         (Some '''') =
       (Inr (PDict [(''success'', PBool True)]),
        [Http (search_request api0 ''bob''),
         Http \<lparr>req_method = ''PATCH'',
               req_url = ''http://localhost:5000/api/v1/members/7/rank'',
               req_headers = [(''Authorization'', ''Bearer secret''),
                              (''Content-Type'', ''application/json'')],
               req_kwargs = [(''json'', PDict [(''rank'', PStr ''General''),
                                (''reason'', PStr ''Changed via Discord Bot''),
                                (''promoted_by'', PStr ''Discord Bot'')])]\<rparr>])"
    by (simp add: change_rank_by_name_def find_bob py_item_def dict_get_def cm)
  show ?thesis using a b c by blast
qed

text \<open>
  Claim C1, amended. Whenever \<open>find_member_by_name\<close> returns a member with a
  \<open>current_rank\<close> field, a non-empty user rank is given, and \<open>can_modify_rank\<close> on that
  user rank and the member's current rank (no ids) denies with a reason,
  \<open>change_rank_by_name\<close> returns the envelope with success false, error
  \<open>permission_denied\<close> and exactly that reason as message; it has done the search call and
  the permission check, and no rank mutation.
\<close>

theorem change_rank_by_name_permission_denied:
  assumes "find_member_by_name self srv member_name = (Inr (PDict m), tr)"
    and "dict_get m ''current_rank'' = Some target_rank"
    and "user_rank \<noteq> []"
    and "can_modify_rank (PStr user_rank) target_rank None None = Inr (False, reason_msg)"
  shows "change_rank_by_name self srv member_name new_rank reason discord_user_id
            (Some user_rank) =
           (Inr (PDict [(''success'', PBool False), (''error'', PStr ''permission_denied''),
                        (''message'', PStr reason_msg)]),
            [Http (search_request self member_name),
             PermissionCheck (PStr user_rank) target_rank])
       \<and> \<not> list_ex is_mutation
             [Http (search_request self member_name),
              PermissionCheck (PStr user_rank) target_rank]"
proof -
  have tr: "tr = [Http (search_request self member_name)]"
    using find_member_by_name_trace[of self srv member_name] assms(1) by simp
  have m: "m \<noteq> []" using assms(2) by (auto simp add: dict_get_def)
  have item: "py_item (PDict m) ''current_rank'' = Inr target_rank"
    using assms(2) by (simp add: py_item_def)
  show ?thesis
    using assms(3,4)
    by (simp add: change_rank_by_name_def assms(1) tr m item envelope_def
        search_request_method)
qed

theorem change_rank_by_name_permission_denied_witness:
  "change_rank_by_name api0 (srv_one_match member_alice) ''alice'' ''General'' None
       (Some ''1001'') (Some ''Novice'') =
     (Inr (PDict [(''success'', PBool False), (''error'', PStr ''permission_denied''),
                  (''message'', PStr (denied_message (PStr ''Novice'') (PStr ''Novice'')))]),
      [Http (search_request api0 ''alice''),
       PermissionCheck (PStr ''Novice'') (PStr ''Novice'')])"
proof -
  have h2: "dict_get [(''id'', PInt 12), (''discord_username'', PStr ''alice''),
                  (''current_rank'', PStr ''Novice'')]
              ''current_rank'' = Some (PStr ''Novice'')"
    by (simp add: dict_get_def)
  have h3: "''Novice'' \<noteq> []" by simp
  have h4: "can_modify_rank (PStr ''Novice'') (PStr ''Novice'') None None =
              Inr (False, denied_message (PStr ''Novice'') (PStr ''Novice''))"
    by (simp add: can_modify_rank_def get_rank_level_def RANK_HIERARCHY_def)
  show ?thesis
    using change_rank_by_name_permission_denied[OF find_alice h2 h3 h4, of "''General''" None
        "Some ''1001''"]
    by simp
qed





end
